theory Spec2Isabelle
  imports Complex_Main
begin

section \<open>The site script \<open>js/script.js\<close>\<close>

text \<open>
  The script wires event handlers to a static page. Each handler is embedded as a function
  from the part of the page it reads and writes to the page it leaves behind. What a handler
  asks of the browser (a clock reading, the answer of a selector lookup, the outcome of a
  clipboard write, a sum of doubles) is an argument of the function. Strings are lists of
  code units below 256; every literal of the script is ASCII.
\<close>

subsection \<open>Menu toggle (\<open>initMenu\<close>)\<close>

text \<open>
  The state \<open>initMenu\<close> works on: whether the navigation list carries the class
  \<open>show\<close>, the \<open>aria-expanded\<close> attribute of the toggle (absent until written),
  the closure variable \<open>lastTouch\<close>, and the navigation links with their \<open>href\<close>
  attribute and their class \<open>active\<close> (used by \<open>initActiveLinks\<close>). The page has
  the toggle and the navigation list; without them \<open>initMenu\<close> attaches nothing.
\<close>

record nav_link =
  href :: "string option"
  active :: bool

record page =
  nav_show :: bool
  aria_expanded :: "string option"
  lastTouch :: int
  navLinks :: "nav_link list"

text \<open>\<open>e.pointerType\<close>: \<open>mouse\<close>, \<open>touch\<close>, \<open>pen\<close>, or the empty string.\<close>

datatype pointer_type = Mouse | Touch | Pen | UnknownPointer

datatype menu_event = Click | PointerDown pointer_type | TouchStart | KeyDown string

definition TOUCH_IGNORE_MS :: int where
  "TOUCH_IGNORE_MS = 900"

definition setExpanded :: "bool \<Rightarrow> page \<Rightarrow> page" where
  "setExpanded v s = s\<lparr>aria_expanded := Some (if v then ''true'' else ''false'')\<rparr>"

text \<open>
  Lines 33 to 35 of \<open>toggleMenu\<close>: a click or pointer-down whose clock reading is less
  than 900 ms after \<open>lastTouch\<close> makes the function return at once.
\<close>

definition is_duplicate :: "menu_event \<Rightarrow> int \<Rightarrow> page \<Rightarrow> bool" where
  "is_duplicate e t_check s =
     (case e of
        Click \<Rightarrow> t_check - lastTouch s < TOUCH_IGNORE_MS
      | PointerDown _ \<Rightarrow> t_check - lastTouch s < TOUCH_IGNORE_MS
      | _ \<Rightarrow> False)"

text \<open>
  \<open>toggleMenu e\<close>. The function reads \<open>Date.now()\<close> up to twice: \<open>t_check\<close> is the
  reading of line 34, \<open>t_rec\<close> the reading stored in \<open>lastTouch\<close> by line 38 or 39.
  \<open>classList.toggle\<close> returns the new membership, which \<open>setExpanded\<close> receives.
  The calls of \<open>e.preventDefault()\<close> in the menu listeners do not touch this state and
  are left out.
\<close>

definition toggleMenu :: "menu_event \<Rightarrow> int \<Rightarrow> int \<Rightarrow> page \<Rightarrow> page" where
  "toggleMenu e t_check t_rec s =
     (if is_duplicate e t_check s then s
      else
        let s1 = (if e = TouchStart then s\<lparr>lastTouch := t_rec\<rparr> else s);
            s2 = (if e = PointerDown Touch then s1\<lparr>lastTouch := t_rec\<rparr> else s1);
            now = (\<not> nav_show s2)
        in setExpanded now (s2\<lparr>nav_show := now\<rparr>))"

text \<open>
  The listeners of the toggle element, lines 51 to 62. With \<open>window.PointerEvent\<close>
  only \<open>pointerdown\<close> is bound; without it \<open>touchstart\<close> and \<open>click\<close> are; the
  \<open>keydown\<close> listener is bound in both cases and acts on Enter and Space.
\<close>

definition toggle_listener :: "bool \<Rightarrow> menu_event \<Rightarrow> int \<Rightarrow> int \<Rightarrow> page \<Rightarrow> page" where
  "toggle_listener pointer_events e t_check t_rec s =
     (case e of
        PointerDown _ \<Rightarrow> if pointer_events then toggleMenu e t_check t_rec s else s
      | TouchStart \<Rightarrow> if pointer_events then s else toggleMenu e t_check t_rec s
      | Click \<Rightarrow> if pointer_events then s else toggleMenu e t_check t_rec s
      | KeyDown k \<Rightarrow> if k = ''Enter'' \<or> k = '' '' then toggleMenu e t_check t_rec s else s)"

text \<open>A run of \<open>toggleMenu\<close> over a sequence of events, each with its two clock readings.\<close>

fun run_toggleMenu :: "(menu_event \<times> int \<times> int) list \<Rightarrow> page \<Rightarrow> page" where
  "run_toggleMenu [] s = s"
| "run_toggleMenu ((e, t_check, t_rec) # evs) s =
     run_toggleMenu evs (toggleMenu e t_check t_rec s)"

text \<open>The number of events of a run at which line 41 (\<open>classList.toggle\<close>) is reached.\<close>

fun toggle_count :: "(menu_event \<times> int \<times> int) list \<Rightarrow> page \<Rightarrow> nat" where
  "toggle_count [] s = 0"
| "toggle_count ((e, t_check, t_rec) # evs) s =
     (if is_duplicate e t_check s then 0 else 1)
       + toggle_count evs (toggleMenu e t_check t_rec s)"

text \<open>A click or pointer-down event whose reading of the clock is \<open>t\<close>, less than 900 ms
  after \<open>t1\<close>.\<close>

definition follows_touch :: "int \<Rightarrow> menu_event \<times> int \<times> int \<Rightarrow> bool" where
  "follows_touch t1 ev =
     (case ev of (e, t_check, t_rec) \<Rightarrow>
        (case e of Click \<Rightarrow> True | PointerDown _ \<Rightarrow> True | _ \<Rightarrow> False)
        \<and> t_check - t1 < TOUCH_IGNORE_MS)"

text \<open>A run of the listeners of the toggle element.\<close>

fun run_toggle_listener :: "bool \<Rightarrow> (menu_event \<times> int \<times> int) list \<Rightarrow> page \<Rightarrow> page" where
  "run_toggle_listener pe [] s = s"
| "run_toggle_listener pe ((e, t_check, t_rec) # evs) s =
     run_toggle_listener pe evs (toggle_listener pe e t_check t_rec s)"

text \<open>
  The document listeners of \<open>initMenu\<close>, lines 65 to 73. A click is described by where its
  target lies: on the navigation link with a given index in \<open>navLinks\<close>, elsewhere inside
  a \<open>nav\<close> element, or outside every \<open>nav\<close>.
\<close>

datatype click_target = NavLink nat | InsideNav | OutsideNav

definition outside_click :: "click_target \<Rightarrow> page \<Rightarrow> page" where
  "outside_click tgt s =
     (if \<not> nav_show s then s
      else if tgt = OutsideNav then setExpanded False (s\<lparr>nav_show := False\<rparr>)
      else s)"

definition escape_key :: "string \<Rightarrow> page \<Rightarrow> page" where
  "escape_key k s =
     (if k = ''Escape'' \<and> nav_show s then setExpanded False (s\<lparr>nav_show := False\<rparr>) else s)"

text \<open>The toggle's \<open>aria-expanded\<close> attribute says what the class \<open>show\<close> says.\<close>

definition aria_in_sync :: "page \<Rightarrow> bool" where
  "aria_in_sync s \<longleftrightarrow> aria_expanded s = Some (if nav_show s then ''true'' else ''false'')"

subsection \<open>Active link handling (\<open>initActiveLinks\<close>): click\<close>

text \<open>
  What a handler does besides changing the page: \<open>e.preventDefault()\<close> and
  \<open>target.scrollIntoView(...)\<close>. An exception that leaves the handler is a value.
\<close>

datatype js_error = SyntaxError | TypeError | NotAllowedError

datatype effect = PreventDefault | ScrollIntoView

text \<open>
  What \<open>document.querySelector(href)\<close> does at line 85: it throws a \<open>SyntaxError\<close>
  when the string is not a selector (as for the \<open>href\<close> \<open>#\<close>, an id selector without
  a name), and otherwise returns \<open>null\<close> or an element.
\<close>

datatype qs_result = QsThrows | QsNull | QsFound

record click_outcome =
  page_after :: page
  effects :: "effect list"
  raised :: "js_error option"

definition starts_with_hash :: "string \<Rightarrow> bool" where
  "starts_with_hash h = (case h of [] \<Rightarrow> False | c # _ \<Rightarrow> c = CHR ''#'')"

text \<open>
  \<open>e.target.closest('nav ul li a')\<close>. The page is static, so the link found is one of
  \<open>navLinks\<close>, which line 78 collected with the same selector.
\<close>

definition closest_link :: "click_target \<Rightarrow> page \<Rightarrow> nat option" where
  "closest_link tgt s =
     (case tgt of NavLink i \<Rightarrow> if i < length (navLinks s) then Some i else None
                | _ \<Rightarrow> None)"

definition clear_active :: "nav_link list \<Rightarrow> nav_link list" where
  "clear_active ls = map (\<lambda>l. l\<lparr>active := False\<rparr>) ls"

text \<open>Lines 88 and 89, and 103: every link loses \<open>active\<close>, then link \<open>i\<close> gets it.\<close>

definition mark_active :: "nat \<Rightarrow> nav_link list \<Rightarrow> nav_link list" where
  "mark_active i ls = (clear_active ls)[i := (clear_active ls ! i)\<lparr>active := True\<rparr>]"

text \<open>The document click listener of lines 79 to 91.\<close>

definition link_click :: "click_target \<Rightarrow> qs_result \<Rightarrow> page \<Rightarrow> click_outcome" where
  "link_click tgt lookup s =
     (case closest_link tgt s of
        None \<Rightarrow> \<lparr>page_after = s, effects = [], raised = None\<rparr>
      | Some i \<Rightarrow>
          let h = (case href (navLinks s ! i) of None \<Rightarrow> [] | Some v \<Rightarrow> v)
          in if starts_with_hash h \<and> lookup = QsThrows
             then \<lparr>page_after = s, effects = [PreventDefault], raised = Some SyntaxError\<rparr>
             else
               let effs = (if starts_with_hash h
                           then PreventDefault # (if lookup = QsFound then [ScrollIntoView] else [])
                           else []);
                   s1 = s\<lparr>navLinks := mark_active i (navLinks s)\<rparr>;
                   s2 = (if nav_show s1 then s1\<lparr>nav_show := False\<rparr> else s1)
               in \<lparr>page_after = s2, effects = effs, raised = None\<rparr>)"

text \<open>
  A click reaches both document click listeners, in the order they were attached:
  \<open>initMenu\<close>'s, then \<open>initActiveLinks\<close>'s.
\<close>

definition document_click :: "click_target \<Rightarrow> qs_result \<Rightarrow> page \<Rightarrow> click_outcome" where
  "document_click tgt lookup s = link_click tgt lookup (outside_click tgt s)"

text \<open>The positions of the links that carry \<open>active\<close>.\<close>

definition active_indices :: "nav_link list \<Rightarrow> nat list" where
  "active_indices ls = filter (\<lambda>i. active (ls ! i)) [0..<length ls]"

subsection \<open>Active link handling (\<open>initActiveLinks\<close>): scroll\<close>

text \<open>
  What \<open>document.querySelector\<close> does with the selector that line 101 builds from a
  section id: it throws a \<open>SyntaxError\<close>, returns \<open>null\<close>, or returns a navigation
  link, given by its index in \<open>navLinks\<close>.
\<close>

datatype link_lookup = LookupThrows | LookupNull | LookupLink nat

text \<open>
  A \<open>section[id]\<close> element with its \<open>id\<close>, \<open>offsetTop\<close> and \<open>offsetHeight\<close>
  (integers in the DOM). The id is pasted between double quotes into the selector. When it
  has a double quote, a backslash, a line break or a NUL, the selector is no longer the
  comparison of the \<open>href\<close> attribute with \<open>#\<close> followed by the id: it may be no
  selector at all, or one that matches something else. What the browser does with it is
  then given with the section, as \<open>odd_lookup\<close>.
\<close>

record page_section =
  sid :: string
  offsetTop :: int
  offsetHeight :: int
  odd_lookup :: link_lookup

definition css_plain :: "string \<Rightarrow> bool" where
  "css_plain i \<longleftrightarrow>
     list_all (\<lambda>c. (of_char c :: nat) \<notin> {0, 10, 12, 13, 34, 92}) i"

text \<open>
  Line 102, for \<open>y\<close> the number that line 96 computes: the double sum
  \<open>window.scrollY + 120\<close>, which is a rational number. The model takes the sum as the
  script has it, already rounded.
\<close>

definition in_view :: "rat \<Rightarrow> page_section \<Rightarrow> bool" where
  "in_view y sec \<longleftrightarrow>
     y \<ge> of_int (offsetTop sec) \<and> y < of_int (offsetTop sec + offsetHeight sec)"

text \<open>The first link whose \<open>href\<close> attribute is the given string, if any.\<close>

fun link_index :: "string \<Rightarrow> nav_link list \<Rightarrow> nat option" where
  "link_index h [] = None"
| "link_index h (l # ls) =
     (if href l = Some h then Some 0 else map_option Suc (link_index h ls))"

text \<open>
  \<open>document.querySelector('nav ul li a[href="#id"]')\<close> of line 101. An element it
  returns is one of \<open>navLinks\<close>; an index that names no link stands for \<open>null\<close>.
\<close>

definition section_link :: "page_section \<Rightarrow> nav_link list \<Rightarrow> link_lookup" where
  "section_link sec ls =
     (if css_plain (sid sec)
      then (case link_index (CHR ''#'' # sid sec) ls of
              None \<Rightarrow> LookupNull
            | Some i \<Rightarrow> LookupLink i)
      else (case odd_lookup sec of
              LookupLink i \<Rightarrow> if i < length ls then LookupLink i else LookupNull
            | r \<Rightarrow> r))"

text \<open>
  The loop of lines 97 to 105. The lookup comes before the test of the range, so an
  exception ends the handler at the first section whose selector is refused, with the links
  as the earlier sections left them.
\<close>

fun scroll_sections ::
  "rat \<Rightarrow> page_section list \<Rightarrow> nav_link list \<Rightarrow> nav_link list \<times> js_error option" where
  "scroll_sections y [] ls = (ls, None)"
| "scroll_sections y (sec # secs) ls =
     (case section_link sec ls of
        LookupThrows \<Rightarrow> (ls, Some SyntaxError)
      | LookupNull \<Rightarrow> scroll_sections y secs ls
      | LookupLink i \<Rightarrow>
          scroll_sections y secs (if in_view y sec then mark_active i ls else ls))"

record scroll_outcome =
  scroll_page :: page
  scroll_raised :: "js_error option"

text \<open>
  The scroll listener of lines 95 to 106, attached when the page has a section with an id;
  \<open>y\<close> is the value of \<open>window.scrollY + 120\<close>.
\<close>

definition on_scroll :: "rat \<Rightarrow> page_section list \<Rightarrow> page \<Rightarrow> scroll_outcome" where
  "on_scroll y secs s =
     (case scroll_sections y secs (navLinks s) of
        (ls, err) \<Rightarrow> \<lparr>scroll_page = s\<lparr>navLinks := ls\<rparr>, scroll_raised = err\<rparr>)"

text \<open>
  The sections whose range contains \<open>y\<close> and for which a link with the \<open>href\<close>
  \<open>#\<close> followed by their id exists, in document order.
\<close>

definition scroll_hits :: "rat \<Rightarrow> page_section list \<Rightarrow> nav_link list \<Rightarrow> page_section list" where
  "scroll_hits y secs ls =
     filter (\<lambda>sec. in_view y sec \<and> link_index (CHR ''#'' # sid sec) ls \<noteq> None) secs"

subsection \<open>Progress bars (\<open>animateProgressBars\<close>)\<close>

text \<open>
  A \<open>.progress-bar\<close> element: its \<open>data-progress\<close> attribute, the value last
  assigned to \<open>style.width\<close>, and its text.
\<close>

record progress_bar =
  data_progress :: "string option"
  width :: string
  textContent :: string

text \<open>
  The script's numbers are doubles. Those that occur here are integers: one of magnitude
  at most \<open>2^53\<close> is held exactly (\<open>Num\<close>); \<open>Huge\<close> is a double greater than
  \<open>2^53\<close>, \<open>Infinity\<close> included, and \<open>NegHuge\<close> one less than \<open>-2^53\<close>.
\<close>

datatype js_number = Num int | Huge | NegHuge

text \<open>
  The double nearest to an integer, ties to the even significand: \<open>2^53 + 1\<close> becomes
  \<open>2^53\<close>, and every larger integer a double above \<open>2^53\<close>.
\<close>

definition number_value :: "int \<Rightarrow> js_number" where
  "number_value n =
     (if n > 2 ^ 53 + 1 then Huge
      else if n = 2 ^ 53 + 1 then Num (2 ^ 53)
      else if n \<ge> - (2 ^ 53) then Num n
      else if n = - (2 ^ 53) - 1 then Num (- (2 ^ 53))
      else NegHuge)"

definition is_js_space :: "char \<Rightarrow> bool" where
  "is_js_space c \<longleftrightarrow> (of_char c :: nat) \<in> {9, 10, 11, 12, 13, 32, 160}"

definition is_digit :: "char \<Rightarrow> bool" where
  "is_digit c \<longleftrightarrow> 48 \<le> (of_char c :: nat) \<and> (of_char c :: nat) \<le> 57"

definition digits_value :: "string \<Rightarrow> int" where
  "digits_value ds = foldl (\<lambda>acc c. acc * 10 + (int (of_char c) - 48)) 0 ds"

text \<open>
  \<open>parseInt(s, 10)\<close>: white space is skipped, one sign is read, then the longest run of
  decimal digits, whose value becomes a double; \<open>None\<close> is \<open>NaN\<close>.
\<close>

definition parseInt10 :: "string \<Rightarrow> js_number option" where
  "parseInt10 s =
     (let s1 = dropWhile is_js_space s;
          neg = (case s1 of [] \<Rightarrow> False | c # _ \<Rightarrow> c = CHR ''-'');
          s2 = (case s1 of [] \<Rightarrow> []
                         | c # cs \<Rightarrow> if c = CHR ''-'' \<or> c = CHR ''+'' then cs else s1);
          ds = takeWhile is_digit s2
      in if ds = [] then None
         else Some (number_value (if neg then - digits_value ds else digits_value ds)))"

text \<open>
  Line 113. \<open>dataset.progress\<close> and \<open>getAttribute('data-progress')\<close> read the same
  attribute; when it is absent or empty \<open>parseInt\<close> gets the number \<open>0\<close>, that is the
  string \<open>0\<close>. The final \<open>|| 0\<close> turns \<open>NaN\<close> into \<open>0\<close>.
\<close>

definition progress_target :: "progress_bar \<Rightarrow> js_number" where
  "progress_target bar =
     (case parseInt10 (case data_progress bar of None \<Rightarrow> ''0''
                                               | Some v \<Rightarrow> if v = [] then ''0'' else v) of
        None \<Rightarrow> Num 0
      | Some n \<Rightarrow> n)"

text \<open>The decimal form of an integer, as \<open>w + '%'\<close> builds it.\<close>

fun decimal :: "nat \<Rightarrow> string" where
  "decimal n =
     (if n < 10 then [''0123456789'' ! n]
      else decimal (n div 10) @ [''0123456789'' ! (n mod 10)])"

declare decimal.simps [simp del]

definition number_string :: "int \<Rightarrow> string" where
  "number_string n = (if n < 0 then CHR ''-'' # decimal (nat (- n)) else decimal (nat n))"

text \<open>
  The counter \<open>w\<close> starts at 0 and holds an integer between 0 and \<open>2^53\<close>.
  \<open>w >= target\<close>, and \<open>w++\<close>: at \<open>2^53\<close> the sum \<open>w + 1\<close> is rounded back to
  \<open>2^53\<close>.
\<close>

definition reached :: "int \<Rightarrow> js_number \<Rightarrow> bool" where
  "reached w target = (case target of Num t \<Rightarrow> w \<ge> t | Huge \<Rightarrow> False | NegHuge \<Rightarrow> True)"

definition js_incr :: "int \<Rightarrow> int" where
  "js_incr w = (if w < 2 ^ 53 then w + 1 else w)"

text \<open>
  The interval callback of line 114, called until it clears its own interval: each call
  either stops (\<open>w >= target\<close>) or increments \<open>w\<close> and writes width and text. The
  result is the bar when the interval is cleared, and \<open>None\<close> when it never is.
\<close>

partial_function (option) run_interval ::
  "js_number \<Rightarrow> int \<Rightarrow> progress_bar \<Rightarrow> progress_bar option" where
  "run_interval target w bar =
     (if reached w target then Some bar
      else run_interval target (js_incr w)
             (bar\<lparr>width := number_string (js_incr w) @ ''%'',
                  textContent := number_string (js_incr w) @ ''%''\<rparr>))"

declare run_interval.simps [code]

definition animate_bar :: "progress_bar \<Rightarrow> progress_bar option" where
  "animate_bar bar = run_interval (progress_target bar) 0 bar"

definition animateProgressBars :: "progress_bar list \<Rightarrow> progress_bar option list" where
  "animateProgressBars bars = map animate_bar bars"

subsection \<open>Map toggle (\<open>initMapToggle\<close>)\<close>

record map_panel =
  map_expanded :: bool
  map_label :: string
  scroll_request :: "rat option"

text \<open>
  The click listener of lines 134 to 139; \<open>rect_top\<close> is
  \<open>getBoundingClientRect().top\<close> and \<open>scrollY\<close> is \<open>window.scrollY\<close> at the click.
\<close>

definition map_toggle_click :: "rat \<Rightarrow> rat \<Rightarrow> map_panel \<Rightarrow> map_panel" where
  "map_toggle_click rect_top scrollY m =
     (let m1 = m\<lparr>map_expanded := \<not> map_expanded m\<rparr>;
          expanded = map_expanded m1;
          m2 = m1\<lparr>map_label := (if expanded then ''Ver mapa compacto'' else ''Ver mapa completo'')\<rparr>
      in m2\<lparr>scroll_request := Some (rect_top + scrollY - 80)\<rparr>)"

subsection \<open>Contact helpers (\<open>initContactHelpers\<close>)\<close>

record toast_element =
  toast_text :: string
  sr_only :: bool
  opacity :: string

datatype timer_task = FadeOut | AddSrOnly

text \<open>
  The toast element (if the page has one), the pending timers with their delays, the
  \<open>action\<close> attribute of the form, the \<open>href\<close> and \<open>data-email\<close> attributes of the
  e-mail link, and the system clipboard.
\<close>

record contact =
  toast :: "toast_element option"
  timers :: "(nat \<times> timer_task) list"
  form_action :: "string option"
  email_href :: "string option"
  data_email :: "string option"
  clipboard :: "string option"

definition showToast :: "string \<Rightarrow> nat \<Rightarrow> contact \<Rightarrow> contact" where
  "showToast msg duration s =
     (case toast s of
        None \<Rightarrow> s
      | Some t \<Rightarrow>
          s\<lparr>toast := Some (t\<lparr>toast_text := msg, sr_only := False, opacity := ''1''\<rparr>),
            timers := timers s @ [(duration, FadeOut)]\<rparr>)"

text \<open>What the two timer callbacks of \<open>showToast\<close> do when they fire.\<close>

definition fire_timer :: "timer_task \<Rightarrow> contact \<Rightarrow> contact" where
  "fire_timer task s =
     (case toast s of
        None \<Rightarrow> s
      | Some t \<Rightarrow>
          (case task of
             FadeOut \<Rightarrow> s\<lparr>toast := Some (t\<lparr>opacity := ''0''\<rparr>),
                          timers := timers s @ [(300, AddSrOnly)]\<rparr>
           | AddSrOnly \<Rightarrow> s\<lparr>toast := Some (t\<lparr>sr_only := True\<rparr>)\<rparr>))"

text \<open>The toast element displays \<open>msg\<close>.\<close>

definition toast_shows :: "string \<Rightarrow> contact \<Rightarrow> bool" where
  "toast_shows msg s \<longleftrightarrow>
     (case toast s of
        None \<Rightarrow> False
      | Some t \<Rightarrow> toast_text t = msg \<and> \<not> sr_only t \<and> opacity t = ''1'')"

text \<open>\<open>String.prototype.replace\<close> with a string pattern: the first occurrence only.\<close>

fun replace_first :: "string \<Rightarrow> string \<Rightarrow> string \<Rightarrow> string" where
  "replace_first pat rep [] = (if pat = [] then rep else [])"
| "replace_first pat rep (c # cs) =
     (if take (length pat) (c # cs) = pat then rep @ drop (length pat) (c # cs)
      else c # replace_first pat rep cs)"

text \<open>Line 154; \<open>None\<close> is \<open>undefined\<close>.\<close>

definition copy_email_value :: "contact \<Rightarrow> string option" where
  "copy_email_value s =
     (let r = replace_first ''mailto:'' [] (case email_href s of None \<Rightarrow> [] | Some v \<Rightarrow> v)
      in if r \<noteq> [] then Some r else data_email s)"

text \<open>
  \<open>navigator.clipboard.writeText\<close> as the browser provides it: \<open>navigator.clipboard\<close>
  is undefined (the call throws a \<open>TypeError\<close>), the promise is rejected, or the text is
  written.
\<close>

datatype clipboard_env = ClipboardMissing | ClipboardRejects | ClipboardAccepts

definition writeText :: "clipboard_env \<Rightarrow> string \<Rightarrow> contact \<Rightarrow> js_error + contact" where
  "writeText env txt s =
     (case env of
        ClipboardMissing \<Rightarrow> Inl TypeError
      | ClipboardRejects \<Rightarrow> Inl NotAllowedError
      | ClipboardAccepts \<Rightarrow> Inr (s\<lparr>clipboard := Some txt\<rparr>))"

text \<open>
  The click listener of the copy button, lines 153 to 156, with its \<open>try\<close> and
  \<open>catch\<close>. \<open>Inl\<close> would be an exception leaving the handler.
\<close>

definition copy_click :: "clipboard_env \<Rightarrow> contact \<Rightarrow> js_error + contact" where
  "copy_click env s =
     (let email = (case copy_email_value s of None \<Rightarrow> ''undefined'' | Some v \<Rightarrow> v)
      in case writeText env email s of
           Inr s1 \<Rightarrow> Inr (showToast ''Correo copiado al portapapeles'' 3000 s1)
         | Inl err \<Rightarrow>
             Inr (showToast ''No se pudo copiar. Selecciona el correo manualmente.'' 3000 s))"

record submit_outcome =
  contact_after :: contact
  submit_prevented :: bool

text \<open>The submit listener of the form, lines 161 to 165.\<close>

definition form_submit :: "contact \<Rightarrow> submit_outcome" where
  "form_submit s =
     (let actionUrl = (case form_action s of None \<Rightarrow> [] | Some v \<Rightarrow> v)
      in if actionUrl = []
         then \<lparr>contact_after = showToast ''No hay destino configurado para el formulario'' 3000 s,
               submit_prevented = True\<rparr>
         else \<lparr>contact_after = showToast ''Enviando mensaje...'' 3000 s,
               submit_prevented = False\<rparr>)"

subsection \<open>Example pages\<close>

text \<open>A page with two navigation links, its menu closed, and the same page with the menu open.\<close>

definition closed_page :: page where
  "closed_page =
     \<lparr>nav_show = False, aria_expanded = Some ''false'', lastTouch = 0,
      navLinks = [\<lparr>href = Some ''#inicio'', active = True\<rparr>,
                  \<lparr>href = Some ''#'', active = False\<rparr>]\<rparr>"

definition open_page :: page where
  "open_page = closed_page\<lparr>nav_show := True, aria_expanded := Some ''true''\<rparr>"

text \<open>Two sections of which the second lies inside the first, and a link to each.\<close>

definition nested_sections :: "page_section list" where
  "nested_sections =
     [\<lparr>sid = ''a'', offsetTop = 0, offsetHeight = 1000, odd_lookup = LookupNull\<rparr>,
      \<lparr>sid = ''b'', offsetTop = 0, offsetHeight = 500, odd_lookup = LookupNull\<rparr>]"

definition nested_page :: page where
  "nested_page =
     \<lparr>nav_show = False, aria_expanded = Some ''false'', lastTouch = 0,
      navLinks = [\<lparr>href = Some ''#a'', active = False\<rparr>,
                  \<lparr>href = Some ''#b'', active = False\<rparr>]\<rparr>"


text \<open>A section whose id has a double quote, for which the selector of line 101 is refused.\<close>

definition quoted_section :: page_section where
  "quoted_section =
     \<lparr>sid = ''a\"b'', offsetTop = 1000, offsetHeight = 500, odd_lookup = LookupThrows\<rparr>"

text \<open>
  A progress bar without \<open>data-progress\<close>, one with the target 73, and one whose target
  is \<open>2^53 + 2\<close>.
\<close>

definition bare_bar :: progress_bar where
  "bare_bar = \<lparr>data_progress = None, width = [], textContent = []\<rparr>"

definition bar_73 :: progress_bar where
  "bar_73 = \<lparr>data_progress = Some ''73'', width = [], textContent = []\<rparr>"

definition huge_bar :: progress_bar where
  "huge_bar = \<lparr>data_progress = Some ''9007199254740994'', width = [], textContent = []\<rparr>"

text \<open>A collapsed map panel and a contact section with a hidden toast.\<close>

definition collapsed_map :: map_panel where
  "collapsed_map =
     \<lparr>map_expanded = False, map_label = ''Ver mapa completo'', scroll_request = None\<rparr>"

definition contact_page :: contact where
  "contact_page =
     \<lparr>toast = Some \<lparr>toast_text = [], sr_only = True, opacity = ''0''\<rparr>,
      timers = [], form_action = None,
      email_href = Some ''mailto:hola@example.com'', data_email = None,
      clipboard = None\<rparr>"

subsection \<open>Facts about the menu toggle\<close>

lemma toggleMenu_duplicate: "is_duplicate e t_check s \<Longrightarrow> toggleMenu e t_check t_rec s = s"
  by (simp add: toggleMenu_def)

lemma toggleMenu_TouchStart:
  "toggleMenu TouchStart t_check t_rec s =
     s\<lparr>nav_show := \<not> nav_show s,
       aria_expanded := Some (if nav_show s then ''false'' else ''true''),
       lastTouch := t_rec\<rparr>"
  by (simp add: toggleMenu_def is_duplicate_def setExpanded_def Let_def)

lemma follows_touch_duplicate:
  "follows_touch (lastTouch s) (e, t_check, t_rec) \<Longrightarrow> is_duplicate e t_check s"
  by (cases e) (simp_all add: follows_touch_def is_duplicate_def)

lemma run_toggleMenu_ignored:
  "\<forall>ev \<in> set evs. follows_touch (lastTouch s) ev \<Longrightarrow> run_toggleMenu evs s = s"
proof (induction evs)
  case Nil
  show ?case by simp
next
  case (Cons ev evs)
  obtain e tc tr where ev: "ev = (e, tc, tr)" by (cases ev)
  from Cons.prems ev have "follows_touch (lastTouch s) (e, tc, tr)" by simp
  then have "is_duplicate e tc s" by (rule follows_touch_duplicate)
  then have "toggleMenu e tc tr s = s" by (rule toggleMenu_duplicate)
  with Cons ev show ?case by simp
qed

lemma toggle_count_ignored:
  "\<forall>ev \<in> set evs. follows_touch (lastTouch s) ev \<Longrightarrow> toggle_count evs s = 0"
proof (induction evs)
  case Nil
  show ?case by simp
next
  case (Cons ev evs)
  obtain e tc tr where ev: "ev = (e, tc, tr)" by (cases ev)
  from Cons.prems ev have "follows_touch (lastTouch s) (e, tc, tr)" by simp
  then have dup: "is_duplicate e tc s" by (rule follows_touch_duplicate)
  then have "toggleMenu e tc tr s = s" by (rule toggleMenu_duplicate)
  with Cons ev dup show ?case by simp
qed

text \<open>
  C3. A touch-start handled by \<open>toggleMenu\<close>, followed by any number of click and
  pointer-down events that each read the clock less than 900 ms after the reading the
  touch-start recorded: line 41 is reached exactly once in the whole sequence, the follow-up
  events leave the page as the touch-start left it, and the visibility of the navigation
  list has flipped once.
\<close>

theorem touch_then_followups_toggle_once:
  assumes "\<forall>ev \<in> set evs. follows_touch t1 ev"
  shows "toggle_count ((TouchStart, t0, t1) # evs) s = 1
       \<and> run_toggleMenu ((TouchStart, t0, t1) # evs) s = toggleMenu TouchStart t0 t1 s
       \<and> nav_show (run_toggleMenu ((TouchStart, t0, t1) # evs) s) = (\<not> nav_show s)"
proof -
  let ?s1 = "toggleMenu TouchStart t0 t1 s"
  have lt: "lastTouch ?s1 = t1" by (simp add: toggleMenu_TouchStart)
  with assms have ign: "\<forall>ev \<in> set evs. follows_touch (lastTouch ?s1) ev" by simp
  have "toggle_count evs ?s1 = 0" using ign by (rule toggle_count_ignored)
  moreover have "run_toggleMenu evs ?s1 = ?s1" using ign by (rule run_toggleMenu_ignored)
  moreover have "nav_show ?s1 = (\<not> nav_show s)" by (simp add: toggleMenu_TouchStart)
  ultimately show ?thesis by (simp add: is_duplicate_def)
qed

theorem touch_then_followups_toggle_once_witness:
  "follows_touch 5000 (PointerDown Touch, 5010, 5011)
   \<and> follows_touch 5000 (Click, 5300, 5300)
   \<and> toggle_count [(TouchStart, 5000, 5000), (PointerDown Touch, 5010, 5011), (Click, 5300, 5300)]
        closed_page = 1
   \<and> nav_show (run_toggleMenu
        [(TouchStart, 5000, 5000), (PointerDown Touch, 5010, 5011), (Click, 5300, 5300)]
        closed_page)"
proof -
  have f: "\<forall>ev \<in> set [(PointerDown Touch, 5010, 5011), (Click, 5300, 5300)]. follows_touch 5000 ev"
    by (simp add: follows_touch_def TOUCH_IGNORE_MS_def)
  have f1: "follows_touch 5000 (PointerDown Touch, 5010, 5011)"
    and f2: "follows_touch 5000 (Click, 5300, 5300)"
    using f by simp_all
  have n: "\<not> nav_show closed_page" by (simp add: closed_page_def)
  from touch_then_followups_toggle_once [OF f, of 5000 closed_page] f1 f2 n
  show ?thesis by blast
qed

text \<open>
  The window is open on the right: a click whose reading is exactly 900 ms after the
  recorded touch-start is not ignored.
\<close>

lemma click_after_900_toggles:
  "toggle_count [(TouchStart, 5000, 5000), (Click, 5900, 5900)] closed_page = 2"
  by (simp add: closed_page_def is_duplicate_def toggleMenu_def TOUCH_IGNORE_MS_def
      setExpanded_def)

text \<open>
  Without pointer events the touch-start and click listeners of the toggle are
  \<open>toggleMenu\<close> itself; with pointer events the pointer-down listener is.
\<close>

lemma toggle_listener_toggleMenu:
  "toggle_listener False TouchStart tc tr s = toggleMenu TouchStart tc tr s"
  "toggle_listener False Click tc tr s = toggleMenu Click tc tr s"
  "toggle_listener True (PointerDown p) tc tr s = toggleMenu (PointerDown p) tc tr s"
  by (simp_all add: toggle_listener_def)

lemma toggleMenu_touch_pointer:
  "\<not> is_duplicate (PointerDown Touch) t_check s \<Longrightarrow>
   toggleMenu (PointerDown Touch) t_check t_rec s =
     s\<lparr>nav_show := \<not> nav_show s,
       aria_expanded := Some (if nav_show s then ''false'' else ''true''),
       lastTouch := t_rec\<rparr>"
  by (simp add: toggleMenu_def setExpanded_def Let_def)

text \<open>
  C9, as the code has it. With pointer events, a touch-type pointer-down that is not ignored
  records its clock reading and toggles the menu; a second touch-type pointer-down that reads
  the clock less than 900 ms after that recorded reading changes nothing, not even
  \<open>lastTouch\<close>: the two taps toggle once.
\<close>

theorem rapid_second_tap_ignored:
  assumes "\<not> is_duplicate (PointerDown Touch) tc1 s"
    and "tc2 - tr1 < TOUCH_IGNORE_MS"
  shows "lastTouch (toggle_listener True (PointerDown Touch) tc1 tr1 s) = tr1
       \<and> nav_show (toggle_listener True (PointerDown Touch) tc1 tr1 s) = (\<not> nav_show s)
       \<and> toggle_listener True (PointerDown Touch) tc2 tr2
            (toggle_listener True (PointerDown Touch) tc1 tr1 s)
          = toggle_listener True (PointerDown Touch) tc1 tr1 s
       \<and> toggle_count [(PointerDown Touch, tc1, tr1), (PointerDown Touch, tc2, tr2)] s = 1"
proof -
  let ?s1 = "toggle_listener True (PointerDown Touch) tc1 tr1 s"
  have s1: "?s1 = s\<lparr>nav_show := \<not> nav_show s,
       aria_expanded := Some (if nav_show s then ''false'' else ''true''),
       lastTouch := tr1\<rparr>"
    using assms(1) by (simp add: toggle_listener_def toggleMenu_touch_pointer)
  have s1': "toggleMenu (PointerDown Touch) tc1 tr1 s = ?s1"
    by (simp add: toggle_listener_def)
  have dup: "is_duplicate (PointerDown Touch) tc2 ?s1"
    using assms(2) by (simp add: s1 is_duplicate_def)
  then have "toggle_listener True (PointerDown Touch) tc2 tr2 ?s1 = ?s1"
    by (simp add: toggle_listener_def toggleMenu_duplicate)
  moreover have "toggle_count [(PointerDown Touch, tc1, tr1), (PointerDown Touch, tc2, tr2)] s = 1"
    using assms(1) dup by (simp add: s1')
  ultimately show ?thesis by (simp add: s1)
qed

theorem rapid_second_tap_ignored_witness:
  "\<not> is_duplicate (PointerDown Touch) 10000 closed_page
   \<and> (10800::int) - 10000 < TOUCH_IGNORE_MS
   \<and> toggle_listener True (PointerDown Touch) 10800 10800
        (toggle_listener True (PointerDown Touch) 10000 10000 closed_page)
      = toggle_listener True (PointerDown Touch) 10000 10000 closed_page
   \<and> toggle_count [(PointerDown Touch, 10000, 10000), (PointerDown Touch, 10800, 10800)]
        closed_page = 1"
proof -
  have a: "\<not> is_duplicate (PointerDown Touch) 10000 closed_page"
    by (simp add: is_duplicate_def closed_page_def TOUCH_IGNORE_MS_def)
  have b: "(10800::int) - 10000 < TOUCH_IGNORE_MS"
    by (simp add: TOUCH_IGNORE_MS_def)
  from rapid_second_tap_ignored [OF a b, of 10800] a b show ?thesis
    by blast
qed

text \<open>
  C9 as it is written fails for a third tap. Taps at 10000, 10800 and 11600 ms: the second
  is ignored and so leaves \<open>lastTouch\<close> at 10000; the third arrives 800 ms after the
  second, a previous touch-type pointer-down, and toggles the menu, which the first tap
  opened, shut again.
\<close>

theorem third_tap_toggles_counterexample:
  "(11600::int) - 10800 < TOUCH_IGNORE_MS
   \<and> nav_show (run_toggle_listener True
        [(PointerDown Touch, 10000, 10000), (PointerDown Touch, 10800, 10800)] closed_page)
   \<and> \<not> nav_show (run_toggle_listener True
        [(PointerDown Touch, 10000, 10000), (PointerDown Touch, 10800, 10800),
         (PointerDown Touch, 11600, 11600)] closed_page)"
  by (simp add: closed_page_def toggle_listener_def toggleMenu_def is_duplicate_def
      TOUCH_IGNORE_MS_def setExpanded_def)

subsection \<open>The \<open>aria-expanded\<close> attribute\<close>

text \<open>Every handler of \<open>initMenu\<close> keeps the attribute in step with the class.\<close>

lemma toggleMenu_in_sync: "aria_in_sync s \<Longrightarrow> aria_in_sync (toggleMenu e tc tr s)"
  by (simp add: toggleMenu_def aria_in_sync_def setExpanded_def Let_def)

lemma toggle_listener_in_sync: "aria_in_sync s \<Longrightarrow> aria_in_sync (toggle_listener pe e tc tr s)"
  by (cases e) (simp_all add: toggle_listener_def toggleMenu_in_sync)

lemma outside_click_in_sync: "aria_in_sync s \<Longrightarrow> aria_in_sync (outside_click tgt s)"
  by (simp add: outside_click_def aria_in_sync_def setExpanded_def)

lemma escape_key_in_sync: "aria_in_sync s \<Longrightarrow> aria_in_sync (escape_key k s)"
  by (simp add: escape_key_def aria_in_sync_def setExpanded_def)

text \<open>
  C1 at the input where the code departs from it. The menu is open and
  \<open>aria-expanded\<close> is \<open>true\<close>; a click on the first navigation link runs both document
  click listeners. Line 90 removes the class \<open>show\<close> and does not call
  \<open>setExpanded\<close>: the list is hidden and the attribute still reads \<open>true\<close>.
\<close>

theorem link_click_leaves_aria_expanded_true:
  "aria_in_sync open_page
   \<and> \<not> nav_show (page_after (document_click (NavLink 0) QsFound open_page))
   \<and> aria_expanded (page_after (document_click (NavLink 0) QsFound open_page)) = Some ''true''
   \<and> \<not> aria_in_sync (page_after (document_click (NavLink 0) QsFound open_page))"
  by (simp add: open_page_def closed_page_def aria_in_sync_def document_click_def
      outside_click_def link_click_def closest_link_def starts_with_hash_def Let_def
      mark_active_def clear_active_def)

subsection \<open>Facts about the navigation links\<close>

lemma length_clear_active [simp]: "length (clear_active ls) = length ls"
  by (simp add: clear_active_def)

lemma length_mark_active [simp]: "length (mark_active i ls) = length ls"
  by (simp add: mark_active_def)

lemma active_mark_active:
  "j < length ls \<Longrightarrow> i < length ls \<Longrightarrow> active (mark_active i ls ! j) = (j = i)"
  by (simp add: mark_active_def clear_active_def nth_list_update)

lemma filter_upt_eq: "i < n \<Longrightarrow> filter (\<lambda>j. j = i) [0..<n] = [i]"
proof (induction n)
  case 0
  then show ?case by simp
next
  case (Suc n)
  show ?case
  proof (cases "i = n")
    case True
    have "filter (\<lambda>j. j = n) [0..<n] = []" by (simp add: filter_empty_conv)
    with True show ?thesis by simp
  next
    case False
    with Suc show ?thesis by simp
  qed
qed

lemma active_indices_mark_active:
  assumes "i < length ls"
  shows "active_indices (mark_active i ls) = [i]"
proof -
  have "filter (\<lambda>j. active (mark_active i ls ! j)) [0..<length ls]
        = filter (\<lambda>j. j = i) [0..<length ls]"
    using assms by (intro filter_cong) (simp_all add: active_mark_active)
  with assms show ?thesis by (simp add: active_indices_def filter_upt_eq)
qed

lemma href_mark_active: "map href (mark_active i ls) = map href ls"
proof (rule nth_equalityI)
  show "length (map href (mark_active i ls)) = length (map href ls)" by simp
next
  fix j assume "j < length (map href (mark_active i ls))"
  then have j: "j < length ls" by simp
  then show "map href (mark_active i ls) ! j = map href ls ! j"
    by (cases "j = i") (simp_all add: mark_active_def clear_active_def)
qed

lemma link_index_cong: "map href ls = map href ls' \<Longrightarrow> link_index h ls = link_index h ls'"
proof (induction ls arbitrary: ls')
  case Nil
  then show ?case by simp
next
  case (Cons l ls)
  then obtain l' ls'' where "ls' = l' # ls''" by (cases ls') auto
  with Cons show ?case by auto
qed

lemma link_index_less: "link_index h ls = Some i \<Longrightarrow> i < length ls"
  by (induction ls arbitrary: i) (auto split: if_splits)

lemma link_index_mark_active: "link_index h (mark_active i ls) = link_index h ls"
  by (rule link_index_cong [OF href_mark_active])

lemma scroll_hits_mark_active: "scroll_hits y secs (mark_active i ls) = scroll_hits y secs ls"
  by (simp add: scroll_hits_def link_index_mark_active)

lemma clear_active_mark_active: "clear_active (mark_active i ls) = clear_active ls"
proof (rule nth_equalityI)
  show "length (clear_active (mark_active i ls)) = length (clear_active ls)" by simp
next
  fix j assume "j < length (clear_active (mark_active i ls))"
  then have j: "j < length ls" by simp
  then show "clear_active (mark_active i ls) ! j = clear_active ls ! j"
    by (cases "j = i") (simp_all add: mark_active_def clear_active_def)
qed

lemma mark_active_twice: "mark_active j (mark_active i ls) = mark_active j ls"
  by (simp add: mark_active_def [of j] clear_active_mark_active)

text \<open>For a plain id the lookup of line 101 is the search for the \<open>href\<close>.\<close>

lemma section_link_plain:
  "css_plain (sid sec) \<Longrightarrow>
   section_link sec ls =
     (case link_index (CHR ''#'' # sid sec) ls of None \<Rightarrow> LookupNull | Some i \<Rightarrow> LookupLink i)"
  by (simp add: section_link_def)

lemma scroll_sections_plain:
  "\<forall>sec \<in> set secs. css_plain (sid sec) \<Longrightarrow>
   scroll_sections y secs ls =
     (if scroll_hits y secs ls = [] then ls
      else mark_active (the (link_index (CHR ''#'' # sid (last (scroll_hits y secs ls))) ls)) ls,
      None)"
proof (induction secs arbitrary: ls)
  case Nil
  show ?case by (simp add: scroll_hits_def)
next
  case (Cons sec secs)
  from Cons.prems have plain: "css_plain (sid sec)"
    and rest: "\<forall>sec \<in> set secs. css_plain (sid sec)" by simp_all
  note IH = Cons.IH [OF rest]
  let ?h = "scroll_hits y secs ls"
  show ?case
  proof (cases "link_index (CHR ''#'' # sid sec) ls")
    case None
    then have "scroll_sections y (sec # secs) ls = scroll_sections y secs ls"
      by (simp add: section_link_plain [OF plain])
    moreover from None have "scroll_hits y (sec # secs) ls = ?h"
      by (simp add: scroll_hits_def)
    ultimately show ?thesis using IH [of ls] by simp
  next
    case (Some i)
    show ?thesis
    proof (cases "in_view y sec")
      case False
      with Some have "scroll_sections y (sec # secs) ls = scroll_sections y secs ls"
        by (simp add: section_link_plain [OF plain])
      moreover from False have "scroll_hits y (sec # secs) ls = ?h"
        by (simp add: scroll_hits_def)
      ultimately show ?thesis using IH [of ls] by simp
    next
      case True
      let ?ls' = "mark_active i ls"
      from True Some have step:
        "scroll_sections y (sec # secs) ls = scroll_sections y secs ?ls'"
        by (simp add: section_link_plain [OF plain])
      from True Some have hits: "scroll_hits y (sec # secs) ls = sec # ?h"
        by (simp add: scroll_hits_def)
      show ?thesis
      proof (cases "?h = []")
        case True
        with step hits Some IH [of ?ls'] show ?thesis
          by (simp add: scroll_hits_mark_active)
      next
        case False
        with step hits Some IH [of ?ls'] show ?thesis
          by (simp add: scroll_hits_mark_active link_index_mark_active mark_active_twice)
      qed
    qed
  qed
qed

text \<open>When one section alone is hit, its link is the active one.\<close>

lemma scroll_single_hit:
  assumes "\<forall>sec \<in> set secs. css_plain (sid sec)"
    and "scroll_hits y secs ls = [sec]" and "link_index (CHR ''#'' # sid sec) ls = Some i"
  shows "active_indices (fst (scroll_sections y secs ls)) = [i]"
proof -
  from assms(3) have "i < length ls" by (rule link_index_less)
  with assms show ?thesis
    by (simp add: scroll_sections_plain active_indices_mark_active)
qed


text \<open>
  A section whose selector is refused ends the handler with a \<open>SyntaxError\<close>; the
  sections before it have been handled, those after it have not.
\<close>

lemma quoted_id_scroll_throws:
  "\<not> css_plain (sid quoted_section)
   \<and> scroll_raised (on_scroll 120 (quoted_section # nested_sections) nested_page)
       = Some SyntaxError
   \<and> active_indices
       (navLinks (scroll_page (on_scroll 120 (quoted_section # nested_sections) nested_page)))
       = []
   \<and> active_indices
       (navLinks (scroll_page (on_scroll 120 (nested_sections @ [quoted_section]) nested_page)))
       = [1]"
  by (simp add: quoted_section_def nested_sections_def nested_page_def on_scroll_def
      css_plain_def section_link_def in_view_def mark_active_def clear_active_def
      active_indices_def)




text \<open>
  The click on a link whose \<open>href\<close> starts with \<open>#\<close>, when the lookup of line 85 does
  not throw: the clicked link alone is active, the default is prevented, the menu is closed.
\<close>

lemma link_click_no_throw:
  assumes "i < length (navLinks s)" and "lookup \<noteq> QsThrows"
    and "href (navLinks s ! i) = Some h" and "starts_with_hash h"
  shows "active_indices (navLinks (page_after (link_click (NavLink i) lookup s))) = [i]
       \<and> PreventDefault \<in> set (effects (link_click (NavLink i) lookup s))
       \<and> \<not> nav_show (page_after (link_click (NavLink i) lookup s))
       \<and> raised (link_click (NavLink i) lookup s) = None"
  using assms
  by (simp add: link_click_def closest_link_def Let_def active_indices_mark_active)

text \<open>
  C4 at the input where the code departs from it. The second link of the page has the
  \<open>href\<close> \<open>#\<close>, for which \<open>document.querySelector\<close> throws. The handler has
  prevented the default and then ends at line 85: the clicked link is not active, the
  first link still is, and the menu stays open.
\<close>

theorem hash_link_click_throws:
  "href (navLinks open_page ! 1) = Some ''#''
   \<and> starts_with_hash ''#''
   \<and> raised (document_click (NavLink 1) QsThrows open_page) = Some SyntaxError
   \<and> effects (document_click (NavLink 1) QsThrows open_page) = [PreventDefault]
   \<and> active_indices (navLinks (page_after (document_click (NavLink 1) QsThrows open_page))) = [0]
   \<and> nav_show (page_after (document_click (NavLink 1) QsThrows open_page))"
  by (simp add: open_page_def closed_page_def document_click_def outside_click_def
      link_click_def closest_link_def starts_with_hash_def active_indices_def)

subsection \<open>Facts about the progress bars\<close>

lemma number_value_Num: "number_value n = Num t \<Longrightarrow> - (2 ^ 53) \<le> t \<and> t \<le> 2 ^ 53"
  by (auto simp: number_value_def split: if_splits)

lemma parseInt10_Num: "parseInt10 v = Some (Num t) \<Longrightarrow> t \<le> 2 ^ 53"
  by (auto simp: parseInt10_def Let_def split: if_splits dest: number_value_Num)

lemma parseInt10_zero: "parseInt10 ''0'' = Some (Num 0)"
  by (simp add: parseInt10_def is_js_space_def is_digit_def digits_value_def number_value_def)

lemma progress_target_eq:
  "progress_target bar =
     (case data_progress bar of
        None \<Rightarrow> Num 0
      | Some v \<Rightarrow> (case parseInt10 v of None \<Rightarrow> Num 0 | Some n \<Rightarrow> n))"
proof -
  have empty: "parseInt10 [] = None"
    by (simp add: parseInt10_def)
  show ?thesis
    by (simp add: progress_target_def parseInt10_zero empty split: option.splits)
qed

lemma progress_target_Num: "progress_target bar = Num t \<Longrightarrow> t \<le> 2 ^ 53"
  by (auto simp: progress_target_eq split: option.splits dest: parseInt10_Num)

text \<open>A target within reach: the interval is cleared, after \<open>target - w\<close> increments.\<close>

lemma run_interval_Num:
  "t \<le> 2 ^ 53 \<Longrightarrow>
   run_interval (Num t) w bar =
     Some (if w \<ge> t then bar
           else bar\<lparr>width := number_string t @ ''%'',
                    textContent := number_string t @ ''%''\<rparr>)"
proof (induction "nat (t - w)" arbitrary: w bar)
  case 0
  then have "w \<ge> t" by simp
  then show ?case by (simp add: run_interval.simps [of "Num t" w] reached_def)
next
  case (Suc k)
  then have lt: "w < t" and k: "k = nat (t - (w + 1))" by simp_all
  from lt Suc.prems have inc: "js_incr w = w + 1" by (simp add: js_incr_def)
  let ?bar' = "bar\<lparr>width := number_string (w + 1) @ ''%'',
                     textContent := number_string (w + 1) @ ''%''\<rparr>"
  from lt inc have step: "run_interval (Num t) w bar = run_interval (Num t) (w + 1) ?bar'"
    by (simp add: run_interval.simps [of "Num t" w] reached_def)
  show ?case
  proof (cases "w + 1 \<ge> t")
    case True
    with lt have "w + 1 = t" by simp
    with step lt Suc.hyps(1) [OF k Suc.prems, of ?bar'] show ?thesis by simp
  next
    case False
    with step lt Suc.hyps(1) [OF k Suc.prems, of ?bar'] show ?thesis by simp
  qed
qed

text \<open>A target above \<open>2^53\<close>: the counter never reaches it and the interval is never
  cleared.\<close>

lemma run_interval_Some_not_Huge:
  assumes "run_interval target w bar = Some y"
  shows "target \<noteq> Huge"
  by (rule run_interval.raw_induct [where P = "\<lambda>target w bar y. target \<noteq> Huge", OF _ assms])
    (auto simp: reached_def split: if_splits)

lemma run_interval_Huge: "run_interval Huge w bar = None"
  using run_interval_Some_not_Huge [of Huge w bar] by (cases "run_interval Huge w bar") auto

lemma run_interval_NegHuge: "run_interval NegHuge w bar = Some bar"
  by (simp add: run_interval.simps [of NegHuge w] reached_def)

text \<open>
  C2, as the code has it. The animation of a bar completes unless the target is a double
  above \<open>2^53\<close>, for which the counter stops growing at \<open>2^53\<close> and the interval is
  never cleared. When it completes and the target is at least 1, width and text are the
  target followed by \<open>%\<close>; when the target is 0 or less, the first call of the interval
  callback clears the interval and the bar is left as it was. The target is the number
  \<open>parseInt\<close> reads from \<open>data-progress\<close>, and 0 when the attribute is absent or
  \<open>parseInt\<close> gives \<open>NaN\<close>.
\<close>

theorem progress_bar_final:
  "animate_bar bar =
     (case progress_target bar of
        Huge \<Rightarrow> None
      | NegHuge \<Rightarrow> Some bar
      | Num t \<Rightarrow>
          Some (if t \<le> 0 then bar
                else bar\<lparr>width := number_string t @ ''%'',
                         textContent := number_string t @ ''%''\<rparr>))
   \<and> progress_target bar =
     (case data_progress bar of
        None \<Rightarrow> Num 0
      | Some v \<Rightarrow> (case parseInt10 v of None \<Rightarrow> Num 0 | Some n \<Rightarrow> n))"
proof -
  have "animate_bar bar =
     (case progress_target bar of
        Huge \<Rightarrow> None
      | NegHuge \<Rightarrow> Some bar
      | Num t \<Rightarrow>
          Some (if t \<le> 0 then bar
                else bar\<lparr>width := number_string t @ ''%'',
                         textContent := number_string t @ ''%''\<rparr>))"
  proof (cases "progress_target bar")
    case (Num t)
    then have "t \<le> 2 ^ 53" by (rule progress_target_Num)
    with Num show ?thesis by (simp add: animate_bar_def run_interval_Num)
  next
    case Huge
    then show ?thesis by (simp add: animate_bar_def run_interval_Huge)
  next
    case NegHuge
    then show ?thesis by (simp add: animate_bar_def run_interval_NegHuge)
  qed
  with progress_target_eq [of bar] show ?thesis by simp
qed

text \<open>The scenario of the specification: \<open>data-progress="73"\<close> ends as \<open>73%\<close>.\<close>

theorem progress_bar_73:
  "progress_target bar_73 = Num 73
   \<and> animate_bar bar_73 = Some (bar_73\<lparr>width := ''73%'', textContent := ''73%''\<rparr>)"
proof -
  have t: "progress_target bar_73 = Num 73"
    by (simp add: progress_target_def bar_73_def parseInt10_def is_js_space_def is_digit_def
        digits_value_def number_value_def)
  have n: "number_string 73 = ''73''"
    by (simp add: number_string_def decimal.simps)
  from progress_bar_final [of bar_73] t n show ?thesis by simp
qed

text \<open>
  C2 as it is written fails for a bar without \<open>data-progress\<close>: the target is 0, the
  animation completes at its first call, nothing is written, and the text and the width
  stay empty instead of becoming \<open>0%\<close>.
\<close>

theorem absent_target_counterexample:
  "data_progress bare_bar = None
   \<and> progress_target bare_bar = Num 0
   \<and> animate_bar bare_bar = Some bare_bar
   \<and> textContent bare_bar \<noteq> ''0%''
   \<and> width bare_bar \<noteq> ''0%''"
proof -
  have t: "progress_target bare_bar = Num 0"
    by (simp add: progress_target_def bare_bar_def parseInt10_zero)
  have "animate_bar bare_bar = Some bare_bar"
    by (simp add: animate_bar_def t run_interval.simps [of "Num 0" 0] reached_def)
  with t show ?thesis by (simp add: bare_bar_def)
qed

text \<open>
  The attribute \<open>9007199254740994\<close> is \<open>2^53 + 2\<close>: its animation never completes. The
  attribute \<open>9007199254740993\<close> is read as \<open>2^53\<close>.
\<close>

lemma huge_bar_never_completes:
  "progress_target huge_bar = Huge \<and> animate_bar huge_bar = None
   \<and> parseInt10 ''9007199254740993'' = Some (Num 9007199254740992)"
proof -
  have t: "progress_target huge_bar = Huge"
    by (simp add: progress_target_def huge_bar_def parseInt10_def is_js_space_def is_digit_def
        digits_value_def number_value_def)
  have p: "parseInt10 ''9007199254740993'' = Some (Num 9007199254740992)"
    by (simp add: parseInt10_def is_js_space_def is_digit_def digits_value_def number_value_def)
  from t p show ?thesis by (simp add: animate_bar_def run_interval_Huge)
qed

subsection \<open>Facts about the map toggle\<close>

text \<open>
  C8. From the collapsed state (not expanded, label \<open>Ver mapa completo\<close>) one click
  expands the container and sets the label \<open>Ver mapa compacto\<close>; a second click removes
  the expanded state and restores the label, so that container and label are as at the start.
\<close>

theorem map_toggle_round_trip:
  assumes "\<not> map_expanded m" and "map_label m = ''Ver mapa completo''"
  shows "map_expanded (map_toggle_click r1 y1 m)
       \<and> map_label (map_toggle_click r1 y1 m) = ''Ver mapa compacto''
       \<and> \<not> map_expanded (map_toggle_click r2 y2 (map_toggle_click r1 y1 m))
       \<and> map_label (map_toggle_click r2 y2 (map_toggle_click r1 y1 m)) = ''Ver mapa completo''
       \<and> map_expanded (map_toggle_click r2 y2 (map_toggle_click r1 y1 m)) = map_expanded m
       \<and> map_label (map_toggle_click r2 y2 (map_toggle_click r1 y1 m)) = map_label m"
  using assms by (simp add: map_toggle_click_def Let_def)

theorem map_toggle_round_trip_witness:
  "\<not> map_expanded collapsed_map \<and> map_label collapsed_map = ''Ver mapa completo''
   \<and> map_expanded (map_toggle_click 300 40 collapsed_map)
   \<and> map_label (map_toggle_click 300 40 collapsed_map) = ''Ver mapa compacto''
   \<and> map_label (map_toggle_click 80 260 (map_toggle_click 300 40 collapsed_map))
       = map_label collapsed_map
   \<and> map_expanded (map_toggle_click 80 260 (map_toggle_click 300 40 collapsed_map))
       = map_expanded collapsed_map"
proof -
  have a: "\<not> map_expanded collapsed_map" by (simp add: collapsed_map_def)
  have b: "map_label collapsed_map = ''Ver mapa completo''" by (simp add: collapsed_map_def)
  from map_toggle_round_trip [OF a b, of 300 40 80 260] a b show ?thesis by blast
qed

subsection \<open>Facts about the contact helpers\<close>

lemma toast_shows_showToast:
  "toast s = Some t \<Longrightarrow> toast_shows msg (showToast msg d s)"
  by (simp add: toast_shows_def showToast_def)

lemma showToast_no_toast: "toast s = None \<Longrightarrow> showToast msg d s = s"
  by (simp add: showToast_def)

text \<open>
  C6. On a page with the toast element, a submission of the form is cancelled exactly when
  the form has no action target (the attribute is absent or empty), and then the toast shows
  \<open>No hay destino configurado para el formulario\<close>; otherwise the default is not
  prevented and the toast shows \<open>Enviando mensaje...\<close> when the handler returns.
\<close>

theorem form_submit_feedback:
  assumes "toast s = Some t"
  shows "submit_prevented (form_submit s) = (form_action s = None \<or> form_action s = Some [])
       \<and> toast_shows
           (if form_action s = None \<or> form_action s = Some []
            then ''No hay destino configurado para el formulario''
            else ''Enviando mensaje...'')
           (contact_after (form_submit s))"
  using assms
  by (cases "form_action s") (simp_all add: form_submit_def Let_def toast_shows_showToast)

theorem form_submit_feedback_witness:
  "toast contact_page \<noteq> None
   \<and> submit_prevented (form_submit contact_page)
   \<and> toast_shows ''No hay destino configurado para el formulario''
        (contact_after (form_submit contact_page))
   \<and> \<not> submit_prevented (form_submit (contact_page\<lparr>form_action := Some ''https://example.com/send''\<rparr>))
   \<and> toast_shows ''Enviando mensaje...''
        (contact_after (form_submit (contact_page\<lparr>form_action := Some ''https://example.com/send''\<rparr>)))"
proof -
  let ?t = "\<lparr>toast_text = [], sr_only = True, opacity = ''0''\<rparr>"
  let ?c = "contact_page\<lparr>form_action := Some ''https://example.com/send''\<rparr>"
  have a: "toast contact_page = Some ?t" by (simp add: contact_page_def)
  have b: "toast ?c = Some ?t" by (simp add: contact_page_def)
  have c: "form_action contact_page = None" by (simp add: contact_page_def)
  have d: "form_action ?c = Some ''https://example.com/send''" by simp
  from form_submit_feedback [OF a] form_submit_feedback [OF b] a c d show ?thesis
    by simp
qed

text \<open>
  C10. A form whose \<open>action\<close> attribute is the empty string is handled as a form
  without the attribute: the submission is cancelled and the toast element, when the page
  has one, shows the message of the unconfigured target.
\<close>

theorem empty_action_is_no_target:
  "form_submit (s\<lparr>form_action := Some []\<rparr>) =
     \<lparr>contact_after =
        showToast ''No hay destino configurado para el formulario'' 3000
          (s\<lparr>form_action := Some []\<rparr>),
      submit_prevented = True\<rparr>
   \<and> form_submit (s\<lparr>form_action := None\<rparr>) =
     \<lparr>contact_after =
        showToast ''No hay destino configurado para el formulario'' 3000
          (s\<lparr>form_action := None\<rparr>),
      submit_prevented = True\<rparr>
   \<and> toast (contact_after (form_submit (s\<lparr>form_action := Some []\<rparr>)))
     = toast (contact_after (form_submit (s\<lparr>form_action := None\<rparr>)))
   \<and> toast (contact_after (form_submit (s\<lparr>form_action := Some []\<rparr>)))
     = map_option
         (\<lambda>t. t\<lparr>toast_text := ''No hay destino configurado para el formulario'',
                 sr_only := False, opacity := ''1''\<rparr>)
         (toast s)"
  by (cases "toast s") (simp_all add: form_submit_def showToast_def)

text \<open>
  C7. On a page with the toast element, a click on the copy button never lets an exception
  out of the handler; the toast shows \<open>Correo copiado al portapapeles\<close> when the
  clipboard write succeeds, and \<open>No se pudo copiar. Selecciona el correo manualmente.\<close>
  when the clipboard is unavailable or the write is rejected.
\<close>

theorem copy_click_toast:
  assumes "toast s = Some t"
  shows "\<exists>s'. copy_click env s = Inr s'
           \<and> toast_shows
               (if env = ClipboardAccepts then ''Correo copiado al portapapeles''
                else ''No se pudo copiar. Selecciona el correo manualmente.'')
               s'"
  using assms
  by (cases env) (simp_all add: copy_click_def writeText_def Let_def toast_shows_showToast)

theorem copy_click_toast_witness:
  "toast contact_page \<noteq> None
   \<and> (\<exists>s'. copy_click ClipboardAccepts contact_page = Inr s'
         \<and> toast_shows ''Correo copiado al portapapeles'' s')
   \<and> (\<exists>s'. copy_click ClipboardRejects contact_page = Inr s'
         \<and> toast_shows ''No se pudo copiar. Selecciona el correo manualmente.'' s')
   \<and> (\<exists>s'. copy_click ClipboardMissing contact_page = Inr s'
         \<and> toast_shows ''No se pudo copiar. Selecciona el correo manualmente.'' s')"
proof -
  have a: "toast contact_page = Some \<lparr>toast_text = [], sr_only = True, opacity = ''0''\<rparr>"
    by (simp add: contact_page_def)
  from copy_click_toast [OF a, of ClipboardAccepts] copy_click_toast [OF a, of ClipboardRejects]
    copy_click_toast [OF a, of ClipboardMissing] a
  show ?thesis by simp
qed

text \<open>What reaches the clipboard is the address without its \<open>mailto:\<close> prefix.\<close>

lemma copy_click_clipboard:
  "copy_click ClipboardAccepts contact_page
   = Inr (showToast ''Correo copiado al portapapeles'' 3000
            (contact_page\<lparr>clipboard := Some ''hola@example.com''\<rparr>))"
  by (simp add: copy_click_def writeText_def copy_email_value_def contact_page_def)

end
